theory Spec2Isabelle
  imports Main
begin

section \<open>Data model\<close>

text \<open>
  Go strings and byte slices are sequences of bytes; an Isabelle \<open>char\<close> is a byte, so
  both are modelled as \<open>string\<close>.

  A \<open>nats.Header\<close> (and \<open>micro.Headers\<close>, the same type under another name) is a Go map
  from a case-sensitive key to a list of values. The map itself may be \<open>nil\<close>: a field
  holding one is a \<open>Header option\<close>, \<open>None\<close> being the nil map. A value stored under a
  key is a list; the empty list stands for the nil slice.
\<close>

type_synonym Header = "string \<rightharpoonup> string list"

text \<open>
  Whatever a Go function does besides returning (a run-time panic on a nil map or a nil
  pointer) is a branch of the model.
\<close>

datatype 'a outcome = Panic | Return 'a

subsection \<open>Errors (error.go)\<close>

record HandlerError =
  Description :: string
  Code :: string

text \<open>
  A Go \<open>error\<close> that is not nil: a \<open>*HandlerError\<close>, the package variable
  \<open>ErrUnsupportedEncoding\<close> of the compression middleware, or any other error, of
  which only its rendered message matters here. The pointer of the first kind may
  itself be nil (\<open>None\<close>): an interface value holding a nil \<open>*HandlerError\<close> is not the
  nil error. A nil error is \<open>None\<close> of \<open>error option\<close>.
\<close>

datatype error =
    HandlerErr "HandlerError option"
  | ErrUnsupportedEncoding
  | OtherErr string

text \<open>
  The method \<open>Error()\<close>. The one of \<open>*HandlerError\<close> reads \<open>e.Description\<close> through
  its receiver.
\<close>

fun Error :: "error \<Rightarrow> string outcome" where
  "Error (HandlerErr None) = Panic"
| "Error (HandlerErr (Some e)) = Return (Description e)"
| "Error ErrUnsupportedEncoding = Return ''unsupported encoding''"
| "Error (OtherErr msg) = Return msg"

subsection \<open>The transport's request and the context-carrying request (request.go)\<close>

text \<open>
  \<open>micro.Request\<close> is an interface of the transport. The model keeps the message it
  gives access to and its error-reporting method \<open>Error(code, description, data)\<close>,
  which acts on the world \<open>'w\<close> outside the program (the connection).
\<close>

record 'w micro_Request =
  Subject :: string
  Reply :: string
  Headers :: "Header option"
  Data :: string
  RespondError :: "string \<Rightarrow> string \<Rightarrow> string \<Rightarrow> 'w \<Rightarrow> 'w"

text \<open>\<open>Request\<close> embeds a \<open>micro.Request\<close> and adds a context, of any type \<open>'c\<close>.\<close>

record ('w, 'c) Request =
  Request :: "'w micro_Request"
  ctx :: 'c

section \<open>Chain builder (natsmicromw.go)\<close>

text \<open>
  A \<open>micro.Handler\<close> handles a request by acting on the world; a
  \<open>ContextHandlerFunc\<close> also returns an error, or nil. A middleware maps a handler to
  a handler. The sequences below hold function values (a nil function in a Go slice
  would make the loop panic when it calls it).
\<close>

type_synonym 'w Handler = "'w micro_Request \<Rightarrow> 'w \<Rightarrow> 'w"
type_synonym 'w MiddlewareFunc = "'w Handler \<Rightarrow> 'w Handler"
type_synonym ('w, 'c) ContextHandlerFunc = "('w, 'c) Request \<Rightarrow> 'w \<Rightarrow> error option \<times> 'w"
type_synonym ('w, 'c) ContextMiddlewareFunc =
  "('w, 'c) ContextHandlerFunc \<Rightarrow> ('w, 'c) ContextHandlerFunc"

text \<open>
  The loop \<^verbatim>\<open>for i := len(mws) - 1; i >= 0; i-- { wrapped = mws[i](wrapped) }\<close>, written
  twice in the source with the same body. The counter of the model is \<open>i + 1\<close>: it
  starts at \<open>len(mws)\<close> and the loop ends when it reaches \<open>0\<close>.
\<close>

fun wrapLoop :: "('h \<Rightarrow> 'h) list \<Rightarrow> nat \<Rightarrow> 'h \<Rightarrow> 'h" where
  "wrapLoop mws 0 wrapped = wrapped"
| "wrapLoop mws (Suc i) wrapped = wrapLoop mws i ((mws ! i) wrapped)"

definition wrapHandler :: "'w Handler \<Rightarrow> 'w MiddlewareFunc list \<Rightarrow> 'w Handler" where
  "wrapHandler handler mws = wrapLoop mws (length mws) handler"

text \<open>
  The chain that \<open>wrapContextHandler\<close> builds in its variable \<open>wrappedCtxHandler\<close>
  from \<open>s.cmw\<close> and the terminal handler.
\<close>

definition wrappedCtxHandler ::
  "('w, 'c) ContextMiddlewareFunc list \<Rightarrow> ('w, 'c) ContextHandlerFunc \<Rightarrow> ('w, 'c) ContextHandlerFunc" where
  "wrappedCtxHandler cmw handler = wrapLoop cmw (length cmw) handler"

text \<open>
  A middleware with a pre-logic and a post-logic around the call of the next link, as
  the \<open>DurationMiddleware\<close> of the README is written: both act on the world. The
  context flavour hands the error of the next link back unchanged.
\<close>

definition around ::
  "('w micro_Request \<Rightarrow> 'w \<Rightarrow> 'w) \<Rightarrow> ('w micro_Request \<Rightarrow> 'w \<Rightarrow> 'w) \<Rightarrow> 'w MiddlewareFunc" where
  "around pre post next = (\<lambda>req w. post req (next req (pre req w)))"

definition aroundContext ::
  "(('w, 'c) Request \<Rightarrow> 'w \<Rightarrow> 'w) \<Rightarrow> (('w, 'c) Request \<Rightarrow> 'w \<Rightarrow> 'w) \<Rightarrow>
   ('w, 'c) ContextMiddlewareFunc" where
  "aroundContext pre post next =
     (\<lambda>req w. case next req (pre req w) of (err, w') \<Rightarrow> (err, post req w'))"

section \<open>Error normalizer (natsmicromw.go)\<close>

text \<open>
  \<open>json.Marshal\<close> of a \<open>*HandlerError\<close>: \<open>null\<close> for the nil pointer, else the two
  fields in declaration order under their tags \<open>description\<close> and \<open>code\<close>, without
  whitespace, each value a JSON string as the encoder of the standard library writes it
  (with HTML escaping, the default of \<open>json.Marshal\<close>).

  The encoder copies the bytes \<open>0x20\<close> to \<open>0x7F\<close> other than the double quote, the
  backslash and \<open><\<close>, \<open>>\<close>, \<open>&\<close>. It writes the double quote and the backslash after a
  backslash; a backslash and \<open>n\<close>, \<open>r\<close> or \<open>t\<close> for the line feed, the carriage return
  and the tabulator; a backslash, \<open>u00\<close> and two hexadecimal digits for every other
  byte below \<open>0x80\<close>. The Go releases differ on the backspace and the form feed: up to
  Go 1.21 they are written in that last form, from Go 1.22 on as a backslash and \<open>b\<close>
  or \<open>f\<close>. The workflow of the repository tests under 1.20, 1.21 and 1.22, so the
  release is a parameter: \<open>go122\<close> is true for the encoder of Go 1.22 and later. A
  well-formed UTF-8 sequence of several bytes is copied, except U+2028 and U+2029,
  written as a backslash and \<open>u2028\<close> or \<open>u2029\<close>; a byte that starts no well-formed
  sequence is written as a backslash and \<open>ufffd\<close>.
\<close>

definition hex :: "nat \<Rightarrow> char" where
  "hex n = ''0123456789abcdef'' ! (n mod 16)"

definition htmlSafe :: "nat \<Rightarrow> bool" where
  "htmlSafe b = (0x20 \<le> b \<and> b < 0x80 \<and> b \<noteq> 0x22 \<and> b \<noteq> 0x26 \<and> b \<noteq> 0x3C \<and> b \<noteq> 0x3E \<and> b \<noteq> 0x5C)"

definition inRange :: "nat \<Rightarrow> nat \<Rightarrow> char \<Rightarrow> bool" where
  "inRange lo hi c = (lo \<le> of_char c \<and> of_char c \<le> hi)"

text \<open>
  \<open>utf8.DecodeRuneInString\<close>, as far as the encoder uses it: the number of bytes of
  the well-formed sequence at the head of the string, \<open>0\<close> when there is none.
\<close>

definition utf8Size :: "string \<Rightarrow> nat" where
  "utf8Size s =
     (case s of
        [] \<Rightarrow> 0
      | c0 # cs \<Rightarrow>
          (let b0 = of_char c0 :: nat;
               n = (if 0xC2 \<le> b0 \<and> b0 \<le> 0xDF then 2
                    else if 0xE0 \<le> b0 \<and> b0 \<le> 0xEF then 3
                    else if 0xF0 \<le> b0 \<and> b0 \<le> 0xF4 then 4 else 0);
               lo = (if b0 = 0xE0 then 0xA0 else if b0 = 0xF0 then 0x90 else 0x80);
               hi = (if b0 = 0xED then 0x9F else if b0 = 0xF4 then 0x8F else 0xBF)
           in if n = 0 \<or> length s < n then 0
              else if \<not> inRange lo hi (s ! 1) then 0
              else if 3 \<le> n \<and> \<not> inRange 0x80 0xBF (s ! 2) then 0
              else if 4 \<le> n \<and> \<not> inRange 0x80 0xBF (s ! 3) then 0
              else n))"

definition escapeByte :: "bool \<Rightarrow> char \<Rightarrow> string" where
  "escapeByte go122 c =
     (let b = of_char c :: nat in
      if htmlSafe b then [c]
      else if b = 0x5C \<or> b = 0x22 then [CHR 0x5C, c]
      else if go122 \<and> b = 0x08 then [CHR 0x5C, CHR ''b'']
      else if go122 \<and> b = 0x0C then [CHR 0x5C, CHR ''f'']
      else if b = 0x0A then [CHR 0x5C, CHR ''n'']
      else if b = 0x0D then [CHR 0x5C, CHR ''r'']
      else if b = 0x09 then [CHR 0x5C, CHR ''t'']
      else [CHR 0x5C, CHR ''u'', CHR ''0'', CHR ''0'', hex (b div 16), hex b])"

fun encodeString :: "bool \<Rightarrow> string \<Rightarrow> string" where
  "encodeString go122 [] = []"
| "encodeString go122 (c # cs) =
     (if (of_char c :: nat) < 0x80 then escapeByte go122 c @ encodeString go122 cs
      else
        (let n = utf8Size (c # cs) in
         if n = 0 then CHR 0x5C # ''ufffd'' @ encodeString go122 cs
         else if take 3 (c # cs) = [CHR 0xE2, CHR 0x80, CHR 0xA8] then
           CHR 0x5C # ''u2028'' @ encodeString go122 (drop 2 cs)
         else if take 3 (c # cs) = [CHR 0xE2, CHR 0x80, CHR 0xA9] then
           CHR 0x5C # ''u2029'' @ encodeString go122 (drop 2 cs)
         else take n (c # cs) @ encodeString go122 (drop (n - 1) cs)))"

definition jsonString :: "bool \<Rightarrow> string \<Rightarrow> string" where
  "jsonString go122 s = CHR 0x22 # encodeString go122 s @ [CHR 0x22]"

definition Marshal :: "bool \<Rightarrow> HandlerError option \<Rightarrow> string" where
  \<open>Marshal go122 p =
     (case p of
        None \<Rightarrow> ''null''
      | Some e \<Rightarrow>
          ''{"description":'' @ jsonString go122 (Description e) @
          '',"code":'' @ jsonString go122 (Code e) @ ''}'')\<close>

text \<open>
  \<open>wrapContextHandler(s, handler)\<close> is the closure registered with the transport. It
  reads two fields of \<open>s\<close> each time it runs: \<open>s.cmw\<close>, of which it gets the elements
  here, and \<open>s.defaultCtx\<close>, nil being \<open>None\<close>. \<open>background\<close> is
  \<open>context.Background()\<close>. The result of the transport's \<open>Error\<close> is dropped, as the
  source drops it.

  The type assertion \<open>err.(*HandlerError)\<close> succeeds on every \<open>*HandlerError\<close>, the
  nil pointer too; only when it fails is a \<open>HandlerError\<close> built from \<open>err.Error()\<close>.
  The arguments of \<open>req.Error\<close> are then read through the pointer \<open>handlerErr\<close>, which
  panics when it is nil.
\<close>

definition wrapContextHandler ::
  "bool \<Rightarrow> ('w, 'c) ContextMiddlewareFunc list \<Rightarrow> 'c option \<Rightarrow> 'c \<Rightarrow>
   ('w, 'c) ContextHandlerFunc \<Rightarrow> 'w micro_Request \<Rightarrow> 'w \<Rightarrow> 'w outcome" where
  "wrapContextHandler go122 cmw defaultCtx background handler =
     (\<lambda>req w.
        let c = (case defaultCtx of Some d \<Rightarrow> d | None \<Rightarrow> background);
            ctxReq = \<lparr>Request = req, ctx = c\<rparr>
        in case wrappedCtxHandler cmw handler ctxReq w of
             (None, w') \<Rightarrow> Return w'
           | (Some err, w') \<Rightarrow>
               (case (case err of
                        HandlerErr p \<Rightarrow> Return p
                      | _ \<Rightarrow>
                          (case Error err of
                             Panic \<Rightarrow> Panic
                           | Return msg \<Rightarrow> Return (Some \<lparr>Description = msg, Code = ''500''\<rparr>))) of
                  Panic \<Rightarrow> Panic
                | Return handlerErr \<Rightarrow>
                    (let errData = Marshal go122 handlerErr in
                     case handlerErr of
                       None \<Rightarrow> Panic
                     | Some e \<Rightarrow> Return (RespondError req (Code e) (Description e) errData w'))))"

section \<open>Envelopes (request.go, microrequest.go, microreply.go)\<close>

subsection \<open>Objects behind pointers\<close>

text \<open>
  \<open>WithContext\<close> has a pointer receiver and returns a pointer to a new object. The
  objects live in a store; a pointer is an index into it and \<open>&T{...}\<close> puts the new
  object at the next free index. A pointer outside the store is nil or dangling, and
  reading through it panics.
\<close>

type_synonym 'a store = "'a list"

definition new :: "'a store \<Rightarrow> 'a \<Rightarrow> nat \<times> 'a store" where
  "new st v = (length st, st @ [v])"

definition deref :: "'a store \<Rightarrow> nat \<Rightarrow> 'a outcome" where
  "deref st p = (if p < length st then Return (st ! p) else Panic)"

definition Request_Context :: "('w, 'c) Request store \<Rightarrow> nat \<Rightarrow> 'c outcome" where
  "Request_Context st r = (case deref st r of Panic \<Rightarrow> Panic | Return v \<Rightarrow> Return (Request.ctx v))"

definition Request_WithContext ::
  "('w, 'c) Request store \<Rightarrow> nat \<Rightarrow> 'c \<Rightarrow> (nat \<times> ('w, 'c) Request store) outcome" where
  "Request_WithContext st r c =
     (case deref st r of
        Panic \<Rightarrow> Panic
      | Return v \<Rightarrow> Return (new st \<lparr>Request = Request.Request v, ctx = c\<rparr>))"

subsection \<open>MicroRequest\<close>

record 'c MicroRequest =
  Subject :: string
  Reply :: string
  Headers :: "Header option"
  Data :: string
  ctx :: 'c

definition newMicroRequest :: "'w micro_Request \<Rightarrow> 'c \<Rightarrow> 'c MicroRequest" where
  "newMicroRequest req c =
     \<lparr>MicroRequest.Subject = micro_Request.Subject req,
      MicroRequest.Reply = micro_Request.Reply req,
      MicroRequest.Headers = micro_Request.Headers req,
      MicroRequest.Data = micro_Request.Data req,
      MicroRequest.ctx = c\<rparr>"

definition MicroRequest_Context :: "'c MicroRequest store \<Rightarrow> nat \<Rightarrow> 'c outcome" where
  "MicroRequest_Context st r =
     (case deref st r of Panic \<Rightarrow> Panic | Return v \<Rightarrow> Return (MicroRequest.ctx v))"

definition MicroRequest_WithContext ::
  "'c MicroRequest store \<Rightarrow> nat \<Rightarrow> 'c \<Rightarrow> (nat \<times> 'c MicroRequest store) outcome" where
  "MicroRequest_WithContext st r c =
     (case deref st r of
        Panic \<Rightarrow> Panic
      | Return v \<Rightarrow>
          Return (new st \<lparr>MicroRequest.Subject = MicroRequest.Subject v,
                          MicroRequest.Reply = MicroRequest.Reply v,
                          MicroRequest.Headers = MicroRequest.Headers v,
                          MicroRequest.Data = MicroRequest.Data v,
                          MicroRequest.ctx = c\<rparr>))"

subsection \<open>The header type of the transport\<close>

text \<open>
  The methods of \<open>nats.Header\<close> that the envelopes call. \<open>Add\<close> and \<open>Set\<close> assign to
  an entry of the map, which panics on a nil map; \<open>Get\<close> tests for the nil map itself,
  and reading an entry of a nil map or deleting from it is allowed in Go. The result of
  a write is the map after it.
\<close>

definition Header_Add :: "Header option \<Rightarrow> string \<Rightarrow> string \<Rightarrow> Header option outcome" where
  "Header_Add h key value =
     (case h of
        None \<Rightarrow> Panic
      | Some m \<Rightarrow> Return (Some (m(key \<mapsto> (case m key of None \<Rightarrow> [] | Some vs \<Rightarrow> vs) @ [value]))))"

definition Header_Set :: "Header option \<Rightarrow> string \<Rightarrow> string \<Rightarrow> Header option outcome" where
  "Header_Set h key value =
     (case h of None \<Rightarrow> Panic | Some m \<Rightarrow> Return (Some (m(key \<mapsto> [value]))))"

definition Header_Get :: "Header option \<Rightarrow> string \<Rightarrow> string" where
  "Header_Get h key =
     (case h of
        None \<Rightarrow> []
      | Some m \<Rightarrow> (case m key of None \<Rightarrow> [] | Some [] \<Rightarrow> [] | Some (v # vs) \<Rightarrow> v))"

definition Header_Values :: "Header option \<Rightarrow> string \<Rightarrow> string list" where
  "Header_Values h key =
     (case h of None \<Rightarrow> [] | Some m \<Rightarrow> (case m key of None \<Rightarrow> [] | Some vs \<Rightarrow> vs))"

definition deleteKey :: "Header option \<Rightarrow> string \<Rightarrow> Header option" where
  "deleteKey h key = (case h of None \<Rightarrow> None | Some m \<Rightarrow> Some (m(key := None)))"

subsection \<open>Header accessors of MicroRequest\<close>

text \<open>
  The accessors have pointer receivers and assign to \<open>r.Headers\<close>: the model hands the
  object back as the call leaves it.
\<close>

definition MicroRequest_HeaderAdd ::
  "'c MicroRequest \<Rightarrow> string \<Rightarrow> string \<Rightarrow> 'c MicroRequest outcome" where
  "MicroRequest_HeaderAdd r key value =
     (let h = MicroRequest.Headers r;
          h = (case h of None \<Rightarrow> Some Map.empty | Some m \<Rightarrow> h)
      in case Header_Add h key value of
           Panic \<Rightarrow> Panic
         | Return h' \<Rightarrow> Return (r\<lparr>MicroRequest.Headers := h'\<rparr>))"

definition MicroRequest_HeaderSet ::
  "'c MicroRequest \<Rightarrow> string \<Rightarrow> string \<Rightarrow> 'c MicroRequest outcome" where
  "MicroRequest_HeaderSet r key value =
     (let h = MicroRequest.Headers r;
          h = (case h of None \<Rightarrow> Some Map.empty | Some m \<Rightarrow> h)
      in case Header_Set h key value of
           Panic \<Rightarrow> Panic
         | Return h' \<Rightarrow> Return (r\<lparr>MicroRequest.Headers := h'\<rparr>))"

definition MicroRequest_HeaderGet :: "'c MicroRequest \<Rightarrow> string \<Rightarrow> string" where
  "MicroRequest_HeaderGet r key = Header_Get (MicroRequest.Headers r) key"

definition MicroRequest_HeaderValues :: "'c MicroRequest \<Rightarrow> string \<Rightarrow> string list" where
  "MicroRequest_HeaderValues r key = Header_Values (MicroRequest.Headers r) key"

definition MicroRequest_HeaderDel :: "'c MicroRequest \<Rightarrow> string \<Rightarrow> 'c MicroRequest" where
  "MicroRequest_HeaderDel r key =
     (case MicroRequest.Headers r of
        None \<Rightarrow> r
      | Some m \<Rightarrow> r\<lparr>MicroRequest.Headers := deleteKey (MicroRequest.Headers r) key\<rparr>)"

subsection \<open>MicroReply\<close>

record MicroReply =
  Headers :: "Header option"
  Data :: string

definition NewMicroReply :: "string \<Rightarrow> MicroReply" where
  "NewMicroReply data = \<lparr>MicroReply.Headers = Some Map.empty, MicroReply.Data = data\<rparr>"

definition NewMicroReplyFromRequest :: "string \<Rightarrow> 'c MicroRequest \<Rightarrow> MicroReply" where
  "NewMicroReplyFromRequest data req =
     \<lparr>MicroReply.Headers =
        Some (case MicroRequest.Headers req of None \<Rightarrow> Map.empty | Some m \<Rightarrow> m),
      MicroReply.Data = data\<rparr>"

definition MicroReply_HeaderAdd :: "MicroReply \<Rightarrow> string \<Rightarrow> string \<Rightarrow> MicroReply outcome" where
  "MicroReply_HeaderAdd r key value =
     (let h = MicroReply.Headers r;
          h = (case h of None \<Rightarrow> Some Map.empty | Some m \<Rightarrow> h)
      in case Header_Add h key value of
           Panic \<Rightarrow> Panic
         | Return h' \<Rightarrow> Return (r\<lparr>MicroReply.Headers := h'\<rparr>))"

definition MicroReply_HeaderSet :: "MicroReply \<Rightarrow> string \<Rightarrow> string \<Rightarrow> MicroReply outcome" where
  "MicroReply_HeaderSet r key value =
     (let h = MicroReply.Headers r;
          h = (case h of None \<Rightarrow> Some Map.empty | Some m \<Rightarrow> h)
      in case Header_Set h key value of
           Panic \<Rightarrow> Panic
         | Return h' \<Rightarrow> Return (r\<lparr>MicroReply.Headers := h'\<rparr>))"

definition MicroReply_HeaderGet :: "MicroReply \<Rightarrow> string \<Rightarrow> string" where
  "MicroReply_HeaderGet r key = Header_Get (MicroReply.Headers r) key"

definition MicroReply_HeaderValues :: "MicroReply \<Rightarrow> string \<Rightarrow> string list" where
  "MicroReply_HeaderValues r key = Header_Values (MicroReply.Headers r) key"

definition MicroReply_HeaderDel :: "MicroReply \<Rightarrow> string \<Rightarrow> MicroReply" where
  "MicroReply_HeaderDel r key =
     (case MicroReply.Headers r of
        None \<Rightarrow> r
      | Some m \<Rightarrow> r\<lparr>MicroReply.Headers := deleteKey (MicroReply.Headers r) key\<rparr>)"

section \<open>Compression middleware (middleware/compression.go)\<close>

text \<open>
  The stream codecs of the standard library are taken as given: each maps the bytes it
  is handed to the bytes it produces, or to the error it reports. \<open>gzipWriter\<close> stands
  for \<open>gzip.NewWriter\<close>, \<open>Write\<close> and \<open>Close\<close>, \<open>flateWriter\<close> for the same with
  \<open>flate.NewWriter\<close>, \<open>gzipReader\<close> for \<open>gzip.NewReader\<close> and \<open>io.ReadAll\<close>,
  \<open>flateReader\<close> for \<open>flate.NewReader\<close> and \<open>io.ReadAll\<close>.
\<close>

record codecs =
  gzipWriter :: "string \<Rightarrow> error + string"
  flateWriter :: "string \<Rightarrow> error + string"
  gzipReader :: "string \<Rightarrow> error + string"
  flateReader :: "string \<Rightarrow> error + string"

abbreviation (input) CompressionNone :: string where "CompressionNone \<equiv> []"
abbreviation (input) CompressionGzip :: string where "CompressionGzip \<equiv> ''gzip''"
abbreviation (input) CompressionDeflate :: string where "CompressionDeflate \<equiv> ''deflate''"
abbreviation (input) HeaderAcceptEncoding :: string where "HeaderAcceptEncoding \<equiv> ''accept-encoding''"
abbreviation (input) HeaderEncoding :: string where "HeaderEncoding \<equiv> ''encoding''"

text \<open>
  The package variable \<open>compressMin\<close> is part of the state every handler runs in; the
  state may hold more (\<open>'x\<close>). Its initial value is \<open>1000\<close>.
\<close>

record globals =
  compressMin :: int

definition initial_compressMin :: int where
  "initial_compressMin = 1000"

definition SetCompressMin :: "int \<Rightarrow> 'x globals_scheme \<Rightarrow> 'x globals_scheme" where
  "SetCompressMin minBytes w = w\<lparr>compressMin := minBytes\<rparr>"

definition GetCompressMin :: "'x globals_scheme \<Rightarrow> int" where
  "GetCompressMin w = compressMin w"

text \<open>
  A \<open>MicroHandlerFunc\<close> gets a pointer to the request and returns a pointer to a reply
  (or nil) and an error (or nil). The model hands back, with these two, the request
  object as the call leaves it and the state.
\<close>

type_synonym ('c, 'x) MicroHandlerFunc =
  "'c MicroRequest \<Rightarrow> 'x globals_scheme \<Rightarrow>
   ((MicroReply option \<times> error option) \<times> 'c MicroRequest \<times> 'x globals_scheme) outcome"

definition compressGzip :: "codecs \<Rightarrow> string \<Rightarrow> error + string" where
  "compressGzip lib data = gzipWriter lib data"

definition compressDeflate :: "codecs \<Rightarrow> string \<Rightarrow> error + string" where
  "compressDeflate lib data = flateWriter lib data"

text \<open>
  \<open>compressReply\<close> writes through its pointer to the reply: the result is the error
  it returns and the reply object as it leaves it.
\<close>

definition compressReply ::
  "codecs \<Rightarrow> string \<Rightarrow> MicroReply \<Rightarrow> 'x globals_scheme \<Rightarrow> (error option \<times> MicroReply) outcome" where
  "compressReply lib compression reply w =
     (if int (length (MicroReply.Data reply)) < GetCompressMin w then Return (None, reply)
      else if compression \<noteq> CompressionNone then
        (if compression = CompressionGzip then
           (case compressGzip lib (MicroReply.Data reply) of
              Inl err \<Rightarrow> Return (Some err, reply)
            | Inr compressedData \<Rightarrow>
                (case MicroReply_HeaderSet (reply\<lparr>MicroReply.Data := compressedData\<rparr>)
                        HeaderEncoding compression of
                   Panic \<Rightarrow> Panic
                 | Return reply' \<Rightarrow> Return (None, reply')))
         else if compression = CompressionDeflate then
           (case compressDeflate lib (MicroReply.Data reply) of
              Inl err \<Rightarrow> Return (Some err, reply)
            | Inr compressedData \<Rightarrow>
                (case MicroReply_HeaderSet (reply\<lparr>MicroReply.Data := compressedData\<rparr>)
                        HeaderEncoding compression of
                   Panic \<Rightarrow> Panic
                 | Return reply' \<Rightarrow> Return (None, reply')))
         else Return (None, reply))
      else Return (None, reply))"

definition decompressGzip :: "codecs \<Rightarrow> string \<Rightarrow> error + string" where
  "decompressGzip lib data = gzipReader lib data"

definition decompressDeflate :: "codecs \<Rightarrow> string \<Rightarrow> error + string" where
  "decompressDeflate lib data = flateReader lib data"

definition readCompressedData :: "codecs \<Rightarrow> string \<Rightarrow> string \<Rightarrow> error + string" where
  "readCompressedData lib encoding data =
     (if encoding = ''gzip'' then decompressGzip lib data
      else if encoding = ''deflate'' then decompressDeflate lib data
      else if length encoding > 0 then Inl ErrUnsupportedEncoding
      else Inr data)"

definition decompressRequest :: "codecs \<Rightarrow> 'c MicroRequest \<Rightarrow> error option \<times> 'c MicroRequest" where
  "decompressRequest lib req =
     (case readCompressedData lib (MicroRequest_HeaderGet req HeaderEncoding) (MicroRequest.Data req) of
        Inl err \<Rightarrow> (Some err, req)
      | Inr data \<Rightarrow> (None, req\<lparr>MicroRequest.Data := data\<rparr>))"

text \<open>
  A nil reply with a nil error from the next link reaches \<open>compressReply\<close>, which
  reads \<open>reply.Data\<close> through the nil pointer.
\<close>

definition CompressionMiddleware ::
  "codecs \<Rightarrow> ('c, 'x) MicroHandlerFunc \<Rightarrow> ('c, 'x) MicroHandlerFunc" where
  "CompressionMiddleware lib next =
     (\<lambda>req w.
        case decompressRequest lib req of
          (Some err, req1) \<Rightarrow> Return ((None, Some err), req1, w)
        | (None, req1) \<Rightarrow>
            (case next req1 w of
               Panic \<Rightarrow> Panic
             | Return ((res, Some err), req2, w2) \<Rightarrow> Return ((None, Some err), req2, w2)
             | Return ((res, None), req2, w2) \<Rightarrow>
                 (let accept = MicroRequest_HeaderGet req2 HeaderAcceptEncoding in
                  case res of
                    None \<Rightarrow> Panic
                  | Some reply \<Rightarrow>
                      (case compressReply lib accept reply w2 of
                         Panic \<Rightarrow> Panic
                       | Return (Some err, reply') \<Rightarrow> Return ((None, Some err), req2, w2)
                       | Return (None, reply') \<Rightarrow> Return ((Some reply', None), req2, w2)))))"

section \<open>Services and groups (natsmicromw.go)\<close>

subsection \<open>Slices\<close>

text \<open>
  A Go slice is a window on an array: where it starts, its length and its capacity.
  The arrays live in a heap, addressed by their index in it; a cell holds a function
  value or \<open>None\<close>, the zero value. The nil slice has no array.
\<close>

type_synonym 'a heap = "'a option list list"

record slice =
  base :: "(nat \<times> nat) option"
  len :: nat
  cap :: nat

definition nilSlice :: slice where
  "nilSlice = \<lparr>base = None, len = 0, cap = 0\<rparr>"

definition elems :: "'a heap \<Rightarrow> slice \<Rightarrow> 'a option list" where
  "elems h s =
     (case base s of
        None \<Rightarrow> []
      | Some (a, off) \<Rightarrow> if a < length h then take (len s) (drop off (h ! a)) else [])"

text \<open>
  The slice the compiler builds for the variadic call \<open>f(x1, ..., xn)\<close>: nil for no
  argument, else a new array of just that length.
\<close>

definition variadic :: "'a heap \<Rightarrow> 'a option list \<Rightarrow> slice \<times> 'a heap" where
  "variadic h xs =
     (if xs = [] then (nilSlice, h)
      else (\<lparr>base = Some (length h, 0), len = length xs, cap = length xs\<rparr>, h @ [xs]))"

text \<open>
  The capacity \<open>append\<close> asks for when the array is too short (\<open>growslice\<close> of the Go
  runtime, 1.20): the needed length if that is more than twice the old capacity, twice
  the old capacity below 256 elements, steps of a quarter above. The allocator may round
  the result up.
\<close>

function growLoop :: "nat \<Rightarrow> nat \<Rightarrow> nat" where
  "growLoop newcap newLen =
     (if 0 < newcap \<and> newcap < newLen then growLoop (newcap + (newcap + 3 * 256) div 4) newLen
      else newcap)"
  by pat_completeness auto
termination
  by (relation "measure (\<lambda>(newcap, newLen). newLen - newcap)") auto

definition growslice :: "nat \<Rightarrow> nat \<Rightarrow> nat" where
  "growslice oldCap newLen =
     (let doublecap = oldCap + oldCap in
      if newLen > doublecap then newLen
      else if oldCap < 256 then doublecap
      else growLoop oldCap newLen)"

definition overwrite :: "'a list \<Rightarrow> nat \<Rightarrow> 'a list \<Rightarrow> 'a list" where
  "overwrite arr i xs = take i arr @ xs @ drop (i + length xs) arr"

text \<open>
  The built-in \<open>append(s, xs...)\<close>: when the capacity of \<open>s\<close> suffices, the new elements
  are written into the array of \<open>s\<close> behind its last element and the result is a longer
  window on the same array; otherwise the elements of \<open>s\<close> and the new ones go to a new
  array.
\<close>

definition appendSlice :: "'a heap \<Rightarrow> slice \<Rightarrow> 'a option list \<Rightarrow> slice \<times> 'a heap" where
  "appendSlice h s xs =
     (let n = len s + length xs in
      if n \<le> cap s then
        (case base s of
           None \<Rightarrow> (s, h)
         | Some (a, off) \<Rightarrow> (s\<lparr>len := n\<rparr>, h[a := overwrite (h ! a) (off + len s) xs]))
      else
        (let c = growslice (cap s) n in
         (\<lparr>base = Some (length h, 0), len = n, cap = c\<rparr>,
          h @ [elems h s @ xs @ replicate (c - n) None])))"

subsection \<open>Service and Group\<close>

text \<open>
  \<open>svc\<close> and \<open>grp\<close> are the service and the group of the transport. The two
  middleware slices have a heap each, \<open>WithMiddleware\<close> working on the one of \<open>mw\<close> and
  \<open>WithContextMiddleware\<close> on the one of \<open>cmw\<close>. The variadic parameter \<open>fns\<close> is
  only read: it is given by its elements, except in \<open>AddService\<close> and
  \<open>AddContextService\<close>, which keep the slice itself. These two take the result of
  \<open>micro.AddService\<close>; what \<open>AddService\<close> does to the endpoint of its configuration
  is left out.
\<close>

record ('svc, 'c) Service =
  svc :: 'svc
  mw :: slice
  cmw :: slice
  defaultCtx :: "'c option"

record ('svc, 'grp, 'c) Group =
  svc :: "('svc, 'c) Service"
  grp :: 'grp

definition AddService :: "error + 'svc \<Rightarrow> slice \<Rightarrow> error + ('svc, 'c) Service" where
  "AddService added fns =
     (case added of
        Inl err \<Rightarrow> Inl err
      | Inr s \<Rightarrow> Inr \<lparr>Service.svc = s, mw = fns, cmw = nilSlice, defaultCtx = None\<rparr>)"

definition AddContextService :: "error + 'svc \<Rightarrow> slice \<Rightarrow> error + ('svc, 'c) Service" where
  "AddContextService added fns =
     (case added of
        Inl err \<Rightarrow> Inl err
      | Inr s \<Rightarrow> Inr \<lparr>Service.svc = s, mw = nilSlice, cmw = fns, defaultCtx = None\<rparr>)"

definition Service_WithMiddleware ::
  "'m heap \<Rightarrow> ('svc, 'c) Service \<Rightarrow> 'm option list \<Rightarrow> ('svc, 'c) Service \<times> 'm heap" where
  "Service_WithMiddleware h s fns =
     (case appendSlice h (mw s) fns of
        (mw', h') \<Rightarrow>
          (\<lparr>Service.svc = Service.svc s, mw = mw', cmw = cmw s, defaultCtx = defaultCtx s\<rparr>, h'))"

definition Service_Use ::
  "'m heap \<Rightarrow> ('svc, 'c) Service \<Rightarrow> 'm option list \<Rightarrow> ('svc, 'c) Service \<times> 'm heap" where
  "Service_Use h s fns = Service_WithMiddleware h s fns"

definition Service_WithContextMiddleware ::
  "'m heap \<Rightarrow> ('svc, 'c) Service \<Rightarrow> 'm option list \<Rightarrow> ('svc, 'c) Service \<times> 'm heap" where
  "Service_WithContextMiddleware h s fns =
     (case appendSlice h (cmw s) fns of
        (cmw', h') \<Rightarrow>
          (\<lparr>Service.svc = Service.svc s, mw = mw s, cmw = cmw', defaultCtx = defaultCtx s\<rparr>, h'))"

definition Service_UseContext ::
  "'m heap \<Rightarrow> ('svc, 'c) Service \<Rightarrow> 'm option list \<Rightarrow> ('svc, 'c) Service \<times> 'm heap" where
  "Service_UseContext h s fns = Service_WithContextMiddleware h s fns"

definition SetDefaultContext :: "('svc, 'c) Service \<Rightarrow> 'c option \<Rightarrow> ('svc, 'c) Service" where
  "SetDefaultContext s c = s\<lparr>defaultCtx := c\<rparr>"

definition Service_AddGroup :: "('svc, 'c) Service \<Rightarrow> 'grp \<Rightarrow> ('svc, 'grp, 'c) Group" where
  "Service_AddGroup s g = \<lparr>Group.svc = s, grp = g\<rparr>"

definition Group_AddGroup :: "('svc, 'grp, 'c) Group \<Rightarrow> 'grp \<Rightarrow> ('svc, 'grp, 'c) Group" where
  "Group_AddGroup g g' = \<lparr>Group.svc = Group.svc g, grp = g'\<rparr>"

definition Group_WithMiddleware ::
  "'m heap \<Rightarrow> ('svc, 'grp, 'c) Group \<Rightarrow> 'm option list \<Rightarrow> ('svc, 'grp, 'c) Group \<times> 'm heap" where
  "Group_WithMiddleware h g fns =
     (case appendSlice h (mw (Group.svc g)) fns of
        (mw', h') \<Rightarrow>
          (\<lparr>Group.svc =
               \<lparr>Service.svc = Service.svc (Group.svc g), mw = mw',
                cmw = cmw (Group.svc g), defaultCtx = defaultCtx (Group.svc g)\<rparr>,
            grp = grp g\<rparr>, h'))"

definition Group_Use ::
  "'m heap \<Rightarrow> ('svc, 'grp, 'c) Group \<Rightarrow> 'm option list \<Rightarrow> ('svc, 'grp, 'c) Group \<times> 'm heap" where
  "Group_Use h g fns = Group_WithMiddleware h g fns"

definition Group_WithContextMiddleware ::
  "'m heap \<Rightarrow> ('svc, 'grp, 'c) Group \<Rightarrow> 'm option list \<Rightarrow> ('svc, 'grp, 'c) Group \<times> 'm heap" where
  "Group_WithContextMiddleware h g fns =
     (case appendSlice h (cmw (Group.svc g)) fns of
        (cmw', h') \<Rightarrow>
          (\<lparr>Group.svc =
               \<lparr>Service.svc = Service.svc (Group.svc g), mw = mw (Group.svc g),
                cmw = cmw', defaultCtx = defaultCtx (Group.svc g)\<rparr>,
            grp = grp g\<rparr>, h'))"

definition Group_UseContext ::
  "'m heap \<Rightarrow> ('svc, 'grp, 'c) Group \<Rightarrow> 'm option list \<Rightarrow> ('svc, 'grp, 'c) Group \<times> 'm heap" where
  "Group_UseContext h g fns = Group_WithContextMiddleware h g fns"

section \<open>Instrumented runs\<close>

text \<open>
  For the concrete runs below: a world that is the list of the events observed so far
  and a step that records one event; a request of the transport whose \<open>Error\<close> method
  records the event that it was called; and one, on a world that lists what was
  reported, whose \<open>Error\<close> method records the code, the description and the data it
  is called with.
\<close>

definition record_event :: "string \<Rightarrow> 'r \<Rightarrow> string list \<Rightarrow> string list" where
  "record_event e req w = w @ [e]"

definition recording_Request :: "(string list) micro_Request" where
  "recording_Request =
     \<lparr>micro_Request.Subject = ''foo'', micro_Request.Reply = ''_INBOX.1'',
      micro_Request.Headers = None, micro_Request.Data = ''data'',
      RespondError = (\<lambda>code description data w. w @ [''Error''])\<rparr>"

definition reporting_Request :: "((string \<times> string \<times> string) list) micro_Request" where
  "reporting_Request =
     \<lparr>micro_Request.Subject = ''foo'', micro_Request.Reply = ''_INBOX.1'',
      micro_Request.Headers = None, micro_Request.Data = ''data'',
      RespondError = (\<lambda>code description data w. w @ [(code, description, data)])\<rparr>"

text \<open>
  Stand-ins for the stream codecs: the writers put a mark before the bytes, the readers
  take it off and report an error when it is missing.
\<close>

definition marked_reader :: "char \<Rightarrow> string \<Rightarrow> error + string" where
  "marked_reader m data =
     (case data of
        [] \<Rightarrow> Inl (OtherErr ''unexpected EOF'')
      | c # cs \<Rightarrow> if c = m then Inr cs else Inl (OtherErr ''invalid header''))"

definition marked_codecs :: codecs where
  "marked_codecs =
     \<lparr>gzipWriter = (\<lambda>data. Inr (CHR ''G'' # data)),
      flateWriter = (\<lambda>data. Inr (CHR ''F'' # data)),
      gzipReader = marked_reader (CHR ''G''),
      flateReader = marked_reader (CHR ''F'')\<rparr>"

text \<open>
  The handler of the tests of the compression middleware, \<open>microEcho\<close>: it replies
  with the payload it received.
\<close>

definition microEcho :: "('c, 'x) MicroHandlerFunc" where
  "microEcho req w = Return ((Some (NewMicroReply (MicroRequest.Data req)), None), req, w)"

text \<open>
  Requests for the runs of the compression middleware: a small payload with
  \<open>accept-encoding: gzip\<close>; a payload of 2000 bytes, marked as the gzip stand-in
  writes it, with \<open>encoding: gzip\<close> and \<open>accept-encoding: deflate\<close>; a request with
  \<open>encoding: bzip2\<close>; a payload of 2000 bytes with \<open>accept-encoding: bzip2\<close>; and the
  state with the threshold at its initial value.
\<close>

definition small_gzip_request :: "string MicroRequest" where
  "small_gzip_request =
     \<lparr>MicroRequest.Subject = ''foo'', MicroRequest.Reply = ''_INBOX.1'',
      MicroRequest.Headers = Some [''accept-encoding'' \<mapsto> [''gzip'']],
      MicroRequest.Data = ''0123456789'', MicroRequest.ctx = ''c0''\<rparr>"

definition gzip_in_deflate_out_request :: "string MicroRequest" where
  "gzip_in_deflate_out_request =
     \<lparr>MicroRequest.Subject = ''foo'', MicroRequest.Reply = ''_INBOX.1'',
      MicroRequest.Headers = Some [''encoding'' \<mapsto> [''gzip''], ''accept-encoding'' \<mapsto> [''deflate'']],
      MicroRequest.Data = CHR ''G'' # replicate 2000 (CHR ''a''), MicroRequest.ctx = ''c0''\<rparr>"

definition bzip2_request :: "string MicroRequest" where
  "bzip2_request =
     \<lparr>MicroRequest.Subject = ''foo'', MicroRequest.Reply = ''_INBOX.1'',
      MicroRequest.Headers = Some [''encoding'' \<mapsto> [''bzip2'']],
      MicroRequest.Data = ''data'', MicroRequest.ctx = ''c0''\<rparr>"

definition accept_bzip2_request :: "string MicroRequest" where
  "accept_bzip2_request =
     \<lparr>MicroRequest.Subject = ''foo'', MicroRequest.Reply = ''_INBOX.1'',
      MicroRequest.Headers = Some [''accept-encoding'' \<mapsto> [''bzip2'']],
      MicroRequest.Data = replicate 2000 (CHR ''a''), MicroRequest.ctx = ''c0''\<rparr>"

text \<open>
  A handler that changes the request it is handed before it replies, as
  \<^verbatim>\<open>req.HeaderSet("accept-encoding", v); return NewMicroReply(req.Data), nil\<close> does;
  and a payload of 2000 bytes with \<open>accept-encoding: gzip\<close>.
\<close>

definition set_accept_echo :: "string \<Rightarrow> ('c, 'x) MicroHandlerFunc" where
  "set_accept_echo v req w =
     (case MicroRequest_HeaderSet req HeaderAcceptEncoding v of
        Panic \<Rightarrow> Panic
      | Return req' \<Rightarrow> Return ((Some (NewMicroReply (MicroRequest.Data req')), None), req', w))"

definition accept_gzip_request :: "string MicroRequest" where
  "accept_gzip_request =
     \<lparr>MicroRequest.Subject = ''foo'', MicroRequest.Reply = ''_INBOX.1'',
      MicroRequest.Headers = Some [''accept-encoding'' \<mapsto> [''gzip'']],
      MicroRequest.Data = replicate 2000 (CHR ''a''), MicroRequest.ctx = ''c0''\<rparr>"

definition initial_globals :: globals where
  "initial_globals = \<lparr>compressMin = initial_compressMin\<rparr>"

section \<open>Composition order\<close>

lemma wrapLoop_take: "k \<le> length mws \<Longrightarrow> wrapLoop mws k h = foldr (\<lambda>m acc. m acc) (take k mws) h"
proof (induction k arbitrary: h)
  case 0
  show ?case by simp
next
  case (Suc k)
  then have "take (Suc k) mws = take k mws @ [mws ! k]"
    by (simp add: take_Suc_conv_app_nth)
  with Suc show ?case by simp
qed

lemma wrapLoop_foldr: "wrapLoop mws (length mws) h = foldr (\<lambda>m acc. m acc) mws h"
  by (simp add: wrapLoop_take)

lemma foldr_around:
  "foldr (\<lambda>m next. m next) (map (\<lambda>(pre, post). around pre post) ps) H req w =
   fold (\<lambda>(pre, post). post req) (rev ps) (H req (fold (\<lambda>(pre, post). pre req) ps w))"
  by (induction ps arbitrary: w) (auto simp: around_def)

lemma foldr_aroundContext:
  "foldr (\<lambda>m next. m next) (map (\<lambda>(pre, post). aroundContext pre post) ps) H req w =
   (case H req (fold (\<lambda>(pre, post). pre req) ps w) of
      (err, w') \<Rightarrow> (err, fold (\<lambda>(pre, post). post req) (rev ps) w'))"
  by (induction ps arbitrary: w) (auto simp: aroundContext_def split: prod.splits)

text \<open>
  Claim C1. The chain builder of either flavour (\<open>wrapHandler\<close>, and the loop inside
  \<open>wrapContextHandler\<close>) wraps from the last middleware to the first, so that the
  first registered middleware \<open>m0\<close> is the outermost: the composed handler is
  \<open>m0 (m1 (... (m(n-1) H)))\<close>. When every middleware runs a pre-logic, calls the next
  link and runs a post-logic, a call of the composed handler runs the pre-logics in
  registration order, then the terminal handler \<open>H\<close>, then the post-logics in reverse
  order.
\<close>

theorem composition_order:
  "wrapHandler H mws = foldr (\<lambda>m next. m next) mws H \<and>
   wrappedCtxHandler cmws Hc = foldr (\<lambda>m next. m next) cmws Hc \<and>
   wrapHandler H (map (\<lambda>(pre, post). around pre post) ps) req w =
     fold (\<lambda>(pre, post). post req) (rev ps) (H req (fold (\<lambda>(pre, post). pre req) ps w)) \<and>
   wrappedCtxHandler (map (\<lambda>(pre, post). aroundContext pre post) qs) Hc r w =
     (case Hc r (fold (\<lambda>(pre, post). pre r) qs w) of
        (err, w') \<Rightarrow> (err, fold (\<lambda>(pre, post). post r) (rev qs) w'))"
  unfolding wrapHandler_def wrappedCtxHandler_def wrapLoop_foldr
  using foldr_around [of ps H req w] foldr_aroundContext [of qs Hc r w]
  by simp

text \<open>
  The run of the specification: the chain of \<open>[A, B]\<close> around \<open>H\<close> is observed as
  A-pre, B-pre, H, B-post, A-post, in both flavours.
\<close>

theorem composition_order_witness:
  "wrapHandler (record_event ''H'')
     [around (record_event ''A-pre'') (record_event ''A-post''),
      around (record_event ''B-pre'') (record_event ''B-post'')] recording_Request [] =
     [''A-pre'', ''B-pre'', ''H'', ''B-post'', ''A-post''] \<and>
   wrappedCtxHandler
     [aroundContext (record_event ''A-pre'') (record_event ''A-post''),
      aroundContext (record_event ''B-pre'') (record_event ''B-post'')]
     (\<lambda>req w. (None, record_event ''H'' req w))
     \<lparr>Request = recording_Request, ctx = ()\<rparr> [] =
     (None, [''A-pre'', ''B-pre'', ''H'', ''B-post'', ''A-post''])"
  using composition_order [where H = "record_event ''H''" and mws = "[]" and cmws = "[]"
      and Hc = "\<lambda>req w. (None, record_event ''H'' req w)"
      and ps = "[(record_event ''A-pre'', record_event ''A-post''), (record_event ''B-pre'', record_event ''B-post'')]"
      and req = recording_Request and w = "[]"
      and qs = "[(record_event ''A-pre'', record_event ''A-post''), (record_event ''B-pre'', record_event ''B-post'')]"
      and r = "\<lparr>Request = recording_Request, ctx = ()\<rparr>"]
  by (simp add: record_event_def)

section \<open>Identity on the empty chain\<close>

text \<open>
  Claim C2. With no middleware the composed handler is the terminal handler itself, in
  both flavours: the same function, hence the same result and the same effects on
  every request.
\<close>

theorem empty_chain_identity:
  "wrapHandler H [] = H \<and> wrappedCtxHandler [] Hc = Hc"
  by (simp add: wrapHandler_def wrappedCtxHandler_def)

section \<open>Error normalization\<close>

lemma escapeByte_plain: "htmlSafe (of_char c) \<Longrightarrow> escapeByte newer c = [c]"
  by (simp add: escapeByte_def)

lemma encodeString_plain:
  "list_all (\<lambda>c. htmlSafe (of_char c)) s \<Longrightarrow> encodeString newer s = s"
proof (induction s)
  case Nil
  show ?case by simp
next
  case (Cons c s)
  then have safe: "htmlSafe (of_char c)" and rest: "encodeString newer s = s"
    by simp_all
  from safe have "(of_char c :: nat) < 0x80"
    by (simp add: htmlSafe_def)
  with safe rest show ?case
    by (simp add: escapeByte_plain)
qed

lemma encodeString_500: "encodeString newer ''500'' = ''500''"
  by (rule encodeString_plain) (simp add: htmlSafe_def)

lemma encodeString_escapes:
  "encodeString newer [CHR 0x22, CHR 0x5C, CHR 0x0A, CHR ''<''] =
     [CHR 0x5C, CHR 0x22, CHR 0x5C, CHR 0x5C, CHR 0x5C, CHR ''n'', CHR 0x5C] @ ''u003c''"
  by (simp add: escapeByte_def htmlSafe_def hex_def)

text \<open>
  Claim C3, as amended. When the composed context-handler chain returns an error that
  is not nil and does not hold a nil \<open>*HandlerError\<close> pointer, the dispatcher calls
  the transport's \<open>Error\<close> once, on the world the chain left. The pair it reports is
  the \<open>Description\<close> and \<open>Code\<close> of the error when the error is a \<open>HandlerError\<close>,
  else the rendered message of the error and \<open>500\<close>. The call carries the code as its
  first argument, the description as its second and, as the payload, the JSON object
  with the field \<open>description\<close> first and \<open>code\<close> second, without whitespace, the
  two values written as JSON strings: a string of plain characters between double
  quotes as it is, and the double quote, the backslash, the line feed and \<open><\<close> in
  their escaped forms.
\<close>

theorem error_normalization:
  assumes "wrappedCtxHandler cmws handler
             \<lparr>Request = req, ctx = (case dctx of Some d \<Rightarrow> d | None \<Rightarrow> background)\<rparr> w = (Some err, w')"
  shows \<open>(\<forall>e. err = HandlerErr (Some e) \<longrightarrow>
            wrapContextHandler newer cmws dctx background handler req w =
              Return (RespondError req (Code e) (Description e)
                (''{"description":"'' @ encodeString newer (Description e) @
                 ''","code":"'' @ encodeString newer (Code e) @ ''"}'') w')) \<and>
          ((\<forall>p. err \<noteq> HandlerErr p) \<longrightarrow>
            (\<exists>msg. Error err = Return msg \<and>
               wrapContextHandler newer cmws dctx background handler req w =
                 Return (RespondError req ''500'' msg
                   (''{"description":"'' @ encodeString newer msg @ ''","code":"500"}'') w'))) \<and>
          (list_all (\<lambda>c. htmlSafe (of_char c)) s \<longrightarrow> encodeString newer s = s) \<and>
          encodeString newer [CHR 0x22, CHR 0x5C, CHR 0x0A, CHR ''<''] =
            [CHR 0x5C, CHR 0x22, CHR 0x5C, CHR 0x5C, CHR 0x5C, CHR ''n'', CHR 0x5C] @ ''u003c''\<close>
proof -
  have structured: \<open>\<forall>e. err = HandlerErr (Some e) \<longrightarrow>
            wrapContextHandler newer cmws dctx background handler req w =
              Return (RespondError req (Code e) (Description e)
                (''{"description":"'' @ encodeString newer (Description e) @
                 ''","code":"'' @ encodeString newer (Code e) @ ''"}'') w')\<close>
    using assms
    by (simp add: wrapContextHandler_def Marshal_def jsonString_def del: encodeString.simps)
  have plain: \<open>(\<forall>p. err \<noteq> HandlerErr p) \<longrightarrow>
            (\<exists>msg. Error err = Return msg \<and>
               wrapContextHandler newer cmws dctx background handler req w =
                 Return (RespondError req ''500'' msg
                   (''{"description":"'' @ encodeString newer msg @ ''","code":"500"}'') w'))\<close>
    using assms
    by (cases err)
       (simp_all add: wrapContextHandler_def Marshal_def jsonString_def encodeString_500
          del: encodeString.simps)
  from structured plain encodeString_plain [of s newer] encodeString_escapes [of newer]
  show ?thesis by blast
qed

text \<open>
  The run of the specification and of \<open>TestError\<close>: a handler failing with the message
  \<open>request failed\<close> has the code \<open>500\<close>, the description \<open>request failed\<close> and the
  payload \<open>{"description":"request failed","code":"500"}\<close> reported, under either
  encoder. A handler failing with a \<open>HandlerError\<close> has its own code and description
  reported, and in the payload the double quote, \<open><\<close> and the line feed of its
  description escaped.
\<close>

theorem error_normalization_witness:
  \<open>wrapContextHandler False [] None () (\<lambda>r w. (Some (OtherErr ''request failed''), w))
       reporting_Request [] =
     Return [(''500'', ''request failed'', ''{"description":"request failed","code":"500"}'')] \<and>
   wrapContextHandler True [] None () (\<lambda>r w. (Some (OtherErr ''request failed''), w))
       reporting_Request [] =
     Return [(''500'', ''request failed'', ''{"description":"request failed","code":"500"}'')] \<and>
   wrapContextHandler True [] None ()
       (\<lambda>r w. (Some (HandlerErr (Some \<lparr>Description = ''a"b<c'' @ [CHR 0x0A], Code = ''E42''\<rparr>)), w))
       reporting_Request [] =
     Return [(''E42'', ''a"b<c'' @ [CHR 0x0A],
              ''{"description":"a'' @ [CHR 0x5C] @ ''"b'' @ [CHR 0x5C] @ ''u003cc'' @ [CHR 0x5C] @
              ''n","code":"E42"}'')]\<close>
  using error_normalization [where newer = False and cmws = "[]" and dctx = None
      and background = "()" and handler = "\<lambda>r w. (Some (OtherErr ''request failed''), w)"
      and req = reporting_Request and w = "[]" and err = "OtherErr ''request failed''"
      and w' = "[]" and s = "''request failed''"]
    error_normalization [where newer = True and cmws = "[]" and dctx = None
      and background = "()" and handler = "\<lambda>r w. (Some (OtherErr ''request failed''), w)"
      and req = reporting_Request and w = "[]" and err = "OtherErr ''request failed''"
      and w' = "[]" and s = "''request failed''"]
    error_normalization [where newer = True and cmws = "[]" and dctx = None
      and background = "()"
      and handler = \<open>\<lambda>r w. (Some (HandlerErr (Some \<lparr>Description = ''a"b<c'' @ [CHR 0x0A], Code = ''E42''\<rparr>)), w)\<close>
      and req = reporting_Request and w = "[]"
      and err = \<open>HandlerErr (Some \<lparr>Description = ''a"b<c'' @ [CHR 0x0A], Code = ''E42''\<rparr>)\<close>
      and w' = "[]" and s = "''E42''"]
  by (simp add: wrappedCtxHandler_def reporting_Request_def wrapContextHandler_def Marshal_def
      jsonString_def escapeByte_def htmlSafe_def hex_def)

text \<open>
  Against the claim as it was stated, for every error that is not nil: on a handler
  that returns a nil \<open>*HandlerError\<close> as its error, which is not the nil error, the
  dispatcher panics and nothing is reported.
\<close>

theorem error_normalization_counterexample:
  "wrapContextHandler False [] None () (\<lambda>r w. (Some (HandlerErr None), w)) reporting_Request [] = Panic \<and>
   wrapContextHandler True [] None () (\<lambda>r w. (Some (HandlerErr None), w)) reporting_Request [] = Panic"
  by (simp add: wrapContextHandler_def wrappedCtxHandler_def)

section \<open>Context isolation\<close>

text \<open>
  Claim C7. \<open>WithContext\<close> on a request \<open>r\<close> returns a new request, at an address
  of its own, whose context is the one given and whose other parts are those of \<open>r\<close>
  (the embedded transport request of a \<open>Request\<close>; subject, reply-to, headers and
  payload of a \<open>MicroRequest\<close>). No object that existed before the call is changed, so
  \<open>r\<close> keeps its context; and of two requests derived from \<open>r\<close> with two contexts,
  each reads back its own.
\<close>

theorem WithContext_frame:
  assumes "r < length st" and "p < length ms"
  shows "(\<exists>r1 st1 r2 st2.
            Request_WithContext st r ca = Return (r1, st1) \<and>
            Request_WithContext st1 r cb = Return (r2, st2) \<and>
            r1 \<noteq> r \<and> r2 \<noteq> r \<and> r1 \<noteq> r2 \<and>
            take (length st) st1 = st \<and> take (length st1) st2 = st1 \<and>
            Request_Context st1 r1 = Return ca \<and>
            Request_Context st2 r1 = Return ca \<and>
            Request_Context st2 r2 = Return cb \<and>
            Request_Context st2 r = Request_Context st r \<and>
            Request.Request (st2 ! r1) = Request.Request (st ! r) \<and>
            Request.Request (st2 ! r2) = Request.Request (st ! r)) \<and>
         (\<exists>p1 ms1 p2 ms2.
            MicroRequest_WithContext ms p da = Return (p1, ms1) \<and>
            MicroRequest_WithContext ms1 p db = Return (p2, ms2) \<and>
            p1 \<noteq> p \<and> p2 \<noteq> p \<and> p1 \<noteq> p2 \<and>
            take (length ms) ms1 = ms \<and> take (length ms1) ms2 = ms1 \<and>
            MicroRequest_Context ms1 p1 = Return da \<and>
            MicroRequest_Context ms2 p1 = Return da \<and>
            MicroRequest_Context ms2 p2 = Return db \<and>
            MicroRequest_Context ms2 p = MicroRequest_Context ms p \<and>
            ms2 ! p1 = (ms ! p)\<lparr>MicroRequest.ctx := da\<rparr> \<and>
            ms2 ! p2 = (ms ! p)\<lparr>MicroRequest.ctx := db\<rparr>)"
  using assms
  by (simp add: Request_WithContext_def Request_Context_def MicroRequest_WithContext_def
      MicroRequest_Context_def deref_def new_def nth_append)

text \<open>
  One request of each kind in the store, with the context \<open>c0\<close>; two requests derived
  from it with \<open>c1\<close> and \<open>c2\<close>.
\<close>

theorem WithContext_frame_witness:
  "(0::nat) < length [\<lparr>Request = recording_Request, ctx = ''c0''\<rparr>] \<and>
   (0::nat) < length [small_gzip_request] \<and>
   Request_WithContext [\<lparr>Request = recording_Request, ctx = ''c0''\<rparr>] 0 ''c1'' =
     Return (1, [\<lparr>Request = recording_Request, ctx = ''c0''\<rparr>,
                 \<lparr>Request = recording_Request, ctx = ''c1''\<rparr>]) \<and>
   Request_WithContext [\<lparr>Request = recording_Request, ctx = ''c0''\<rparr>,
                        \<lparr>Request = recording_Request, ctx = ''c1''\<rparr>] 0 ''c2'' =
     Return (2, [\<lparr>Request = recording_Request, ctx = ''c0''\<rparr>,
                 \<lparr>Request = recording_Request, ctx = ''c1''\<rparr>,
                 \<lparr>Request = recording_Request, ctx = ''c2''\<rparr>]) \<and>
   Request_Context [\<lparr>Request = recording_Request, ctx = ''c0''\<rparr>,
                    \<lparr>Request = recording_Request, ctx = ''c1''\<rparr>,
                    \<lparr>Request = recording_Request, ctx = ''c2''\<rparr>] 0 = Return ''c0'' \<and>
   Request_Context [\<lparr>Request = recording_Request, ctx = ''c0''\<rparr>,
                    \<lparr>Request = recording_Request, ctx = ''c1''\<rparr>,
                    \<lparr>Request = recording_Request, ctx = ''c2''\<rparr>] 1 = Return ''c1'' \<and>
   Request_Context [\<lparr>Request = recording_Request, ctx = ''c0''\<rparr>,
                    \<lparr>Request = recording_Request, ctx = ''c1''\<rparr>,
                    \<lparr>Request = recording_Request, ctx = ''c2''\<rparr>] 2 = Return ''c2'' \<and>
   MicroRequest_WithContext [small_gzip_request] 0 ''c1'' =
     Return (1, [small_gzip_request,
                 small_gzip_request\<lparr>MicroRequest.ctx := ''c1''\<rparr>]) \<and>
   MicroRequest_Context [small_gzip_request,
                         small_gzip_request\<lparr>MicroRequest.ctx := ''c1''\<rparr>] 0 = Return ''c0'' \<and>
   MicroRequest_Context [small_gzip_request,
                         small_gzip_request\<lparr>MicroRequest.ctx := ''c1''\<rparr>] 1 = Return ''c1''"
  using WithContext_frame [where st = "[\<lparr>Request = recording_Request, ctx = ''c0''\<rparr>]"
      and r = 0 and ca = "''c1''" and cb = "''c2''"
      and ms = "[small_gzip_request]" and p = 0
      and da = "''c1''" and db = "''c2''"]
  by (simp add: Request_WithContext_def Request_Context_def MicroRequest_WithContext_def
      MicroRequest_Context_def deref_def new_def small_gzip_request_def)

section \<open>Header accessors on a nil map\<close>

text \<open>
  Claim C10. On a \<open>MicroRequest\<close> or a \<open>MicroReply\<close> whose \<open>Headers\<close> map is nil, no
  header accessor panics: \<open>HeaderGet\<close> returns the empty string, \<open>HeaderValues\<close> no
  value, \<open>HeaderDel\<close> leaves the envelope as it is, and \<open>HeaderAdd\<close> and \<open>HeaderSet\<close>
  return normally and leave the envelope with a map that holds just the new entry.
\<close>

theorem nil_Headers_total:
  "(MicroRequest.Headers r = None \<longrightarrow>
      MicroRequest_HeaderGet r key = [] \<and>
      MicroRequest_HeaderValues r key = [] \<and>
      MicroRequest_HeaderDel r key = r \<and>
      MicroRequest_HeaderAdd r key val = Return (r\<lparr>MicroRequest.Headers := Some [key \<mapsto> [val]]\<rparr>) \<and>
      MicroRequest_HeaderSet r key val = Return (r\<lparr>MicroRequest.Headers := Some [key \<mapsto> [val]]\<rparr>)) \<and>
   (MicroReply.Headers q = None \<longrightarrow>
      MicroReply_HeaderGet q key = [] \<and>
      MicroReply_HeaderValues q key = [] \<and>
      MicroReply_HeaderDel q key = q \<and>
      MicroReply_HeaderAdd q key val = Return (q\<lparr>MicroReply.Headers := Some [key \<mapsto> [val]]\<rparr>) \<and>
      MicroReply_HeaderSet q key val = Return (q\<lparr>MicroReply.Headers := Some [key \<mapsto> [val]]\<rparr>))"
  by (simp add: MicroRequest_HeaderGet_def MicroRequest_HeaderValues_def MicroRequest_HeaderDel_def
      MicroRequest_HeaderAdd_def MicroRequest_HeaderSet_def MicroReply_HeaderGet_def
      MicroReply_HeaderValues_def MicroReply_HeaderDel_def MicroReply_HeaderAdd_def
      MicroReply_HeaderSet_def Header_Get_def Header_Values_def Header_Add_def Header_Set_def)

theorem nil_Headers_total_witness:
  "MicroRequest.Headers (small_gzip_request\<lparr>MicroRequest.Headers := None\<rparr>) = None \<and>
   MicroRequest_HeaderGet (small_gzip_request\<lparr>MicroRequest.Headers := None\<rparr>) ''encoding'' = [] \<and>
   MicroRequest_HeaderValues (small_gzip_request\<lparr>MicroRequest.Headers := None\<rparr>) ''encoding'' = [] \<and>
   MicroRequest_HeaderDel (small_gzip_request\<lparr>MicroRequest.Headers := None\<rparr>) ''encoding'' =
     small_gzip_request\<lparr>MicroRequest.Headers := None\<rparr> \<and>
   MicroRequest_HeaderAdd (small_gzip_request\<lparr>MicroRequest.Headers := None\<rparr>) ''encoding'' ''gzip'' =
     Return (small_gzip_request\<lparr>MicroRequest.Headers := Some [''encoding'' \<mapsto> [''gzip'']]\<rparr>) \<and>
   MicroRequest_HeaderSet (small_gzip_request\<lparr>MicroRequest.Headers := None\<rparr>) ''encoding'' ''gzip'' =
     Return (small_gzip_request\<lparr>MicroRequest.Headers := Some [''encoding'' \<mapsto> [''gzip'']]\<rparr>) \<and>
   MicroReply.Headers \<lparr>MicroReply.Headers = None, MicroReply.Data = ''data''\<rparr> = None \<and>
   MicroReply_HeaderGet \<lparr>MicroReply.Headers = None, MicroReply.Data = ''data''\<rparr> ''encoding'' = [] \<and>
   MicroReply_HeaderValues \<lparr>MicroReply.Headers = None, MicroReply.Data = ''data''\<rparr> ''encoding'' = [] \<and>
   MicroReply_HeaderDel \<lparr>MicroReply.Headers = None, MicroReply.Data = ''data''\<rparr> ''encoding'' =
     \<lparr>MicroReply.Headers = None, MicroReply.Data = ''data''\<rparr> \<and>
   MicroReply_HeaderAdd \<lparr>MicroReply.Headers = None, MicroReply.Data = ''data''\<rparr> ''encoding'' ''gzip'' =
     Return \<lparr>MicroReply.Headers = Some [''encoding'' \<mapsto> [''gzip'']], MicroReply.Data = ''data''\<rparr> \<and>
   MicroReply_HeaderSet \<lparr>MicroReply.Headers = None, MicroReply.Data = ''data''\<rparr> ''encoding'' ''gzip'' =
     Return \<lparr>MicroReply.Headers = Some [''encoding'' \<mapsto> [''gzip'']], MicroReply.Data = ''data''\<rparr>"
  using nil_Headers_total [where r = "small_gzip_request\<lparr>MicroRequest.Headers := None\<rparr>"
      and q = "\<lparr>MicroReply.Headers = None, MicroReply.Data = ''data''\<rparr>"
      and key = "''encoding''" and val = "''gzip''"]
  by simp

section \<open>Compression\<close>

lemma HeaderSet_Return:
  "MicroReply_HeaderSet q key val =
     Return (q\<lparr>MicroReply.Headers :=
       Some ((case MicroReply.Headers q of None \<Rightarrow> Map.empty | Some m \<Rightarrow> m)(key \<mapsto> [val]))\<rparr>)"
  by (simp add: MicroReply_HeaderSet_def Header_Set_def split: option.splits)

lemmas run_defs =
  CompressionMiddleware_def decompressRequest_def readCompressedData_def compressReply_def
  compressGzip_def compressDeflate_def decompressGzip_def decompressDeflate_def
  MicroRequest_HeaderGet_def MicroReply_HeaderGet_def MicroReply_HeaderSet_def
  Header_Get_def Header_Set_def microEcho_def NewMicroReply_def GetCompressMin_def
  initial_globals_def initial_compressMin_def marked_codecs_def marked_reader_def
  small_gzip_request_def gzip_in_deflate_out_request_def bzip2_request_def
  accept_bzip2_request_def

lemma marked_gzip_lossless:
  "\<exists>z. gzipWriter marked_codecs d = Inr z \<and> gzipReader marked_codecs z = Inr d"
  by (simp add: marked_codecs_def marked_reader_def)

lemma marked_flate_lossless:
  "\<exists>z. flateWriter marked_codecs d = Inr z \<and> flateReader marked_codecs z = Inr d"
  by (simp add: marked_codecs_def marked_reader_def)

text \<open>
  Claim C4. When the reply of the next link is shorter than the threshold
  \<open>compressMin\<close>, read from the state as it is when the next link has returned,
  \<open>compressReply\<close> changes nothing whatever encoding it is asked for, and the
  middleware returns the reply of the next link as it got it: the same payload and the
  same headers, so that an \<open>encoding\<close> header the next link did not set stays unset.
\<close>

theorem below_threshold_untouched:
  assumes "decompressRequest lib req = (None, dreq)"
    and "nxt dreq w = Return ((Some reply, None), req', w')"
    and "int (length (MicroReply.Data reply)) < GetCompressMin w'"
  shows "compressReply lib accept reply w' = Return (None, reply) \<and>
         CompressionMiddleware lib nxt req w = Return ((Some reply, None), req', w')"
  using assms by (simp add: CompressionMiddleware_def compressReply_def)

text \<open>
  The run of the specification: with the threshold at its initial value of 1000, an
  echoed payload of 10 bytes under \<open>accept-encoding: gzip\<close> comes back unchanged and
  without an \<open>encoding\<close> header.
\<close>

theorem below_threshold_untouched_witness:
  "decompressRequest marked_codecs small_gzip_request = (None, small_gzip_request) \<and>
   microEcho small_gzip_request initial_globals =
     Return ((Some (NewMicroReply ''0123456789''), None), small_gzip_request, initial_globals) \<and>
   int (length (MicroReply.Data (NewMicroReply ''0123456789''))) < GetCompressMin initial_globals \<and>
   GetCompressMin initial_globals = 1000 \<and>
   MicroRequest_HeaderGet small_gzip_request HeaderAcceptEncoding = ''gzip'' \<and>
   CompressionMiddleware marked_codecs microEcho small_gzip_request initial_globals =
     Return ((Some \<lparr>MicroReply.Headers = Some Map.empty, MicroReply.Data = ''0123456789''\<rparr>, None),
             small_gzip_request, initial_globals) \<and>
   MicroReply_HeaderGet \<lparr>MicroReply.Headers = Some Map.empty, MicroReply.Data = ''0123456789''\<rparr>
     HeaderEncoding = []"
  using below_threshold_untouched [where lib = marked_codecs and req = small_gzip_request
      and dreq = small_gzip_request and nxt = microEcho and w = initial_globals
      and reply = "NewMicroReply ''0123456789''" and req' = small_gzip_request
      and w' = initial_globals and accept = "''gzip''"]
  by (simp add: run_defs)

text \<open>
  Claim C5. A request whose \<open>encoding\<close> header is neither empty nor \<open>gzip\<close> nor
  \<open>deflate\<close> makes the middleware return \<open>ErrUnsupportedEncoding\<close>; a request
  declaring \<open>gzip\<close> or \<open>deflate\<close> whose payload the decoder rejects makes it return
  the decoder's error. In both cases the result is the same whatever the next link is,
  and the request and the state are as they were: the next link is not called. With an
  empty \<open>encoding\<close> header the request goes on unchanged, and it is this request
  that the next link is called with.
\<close>

theorem inbound_short_circuit:
  "(MicroRequest_HeaderGet req HeaderEncoding \<noteq> [] \<and>
    MicroRequest_HeaderGet req HeaderEncoding \<noteq> ''gzip'' \<and>
    MicroRequest_HeaderGet req HeaderEncoding \<noteq> ''deflate'' \<longrightarrow>
      CompressionMiddleware lib nxt req w = Return ((None, Some ErrUnsupportedEncoding), req, w)) \<and>
   (MicroRequest_HeaderGet req HeaderEncoding = ''gzip'' \<and>
    gzipReader lib (MicroRequest.Data req) = Inl err \<longrightarrow>
      CompressionMiddleware lib nxt req w = Return ((None, Some err), req, w)) \<and>
   (MicroRequest_HeaderGet req HeaderEncoding = ''deflate'' \<and>
    flateReader lib (MicroRequest.Data req) = Inl err \<longrightarrow>
      CompressionMiddleware lib nxt req w = Return ((None, Some err), req, w)) \<and>
   (MicroRequest_HeaderGet req HeaderEncoding = [] \<longrightarrow>
      decompressRequest lib req = (None, req) \<and>
      CompressionMiddleware lib nxt req w = CompressionMiddleware lib (\<lambda>r. nxt req) req w)"
  by (simp add: CompressionMiddleware_def decompressRequest_def readCompressedData_def
      decompressGzip_def decompressDeflate_def)

text \<open>
  A next link that would panic if it were called: under \<open>encoding: bzip2\<close>, under
  \<open>gzip\<close> with a payload the decoder rejects and under \<open>deflate\<close> with an empty
  payload the middleware returns the error.
\<close>

theorem inbound_short_circuit_witness:
  "MicroRequest_HeaderGet bzip2_request HeaderEncoding = ''bzip2'' \<and>
   CompressionMiddleware marked_codecs (\<lambda>r w. Panic) bzip2_request initial_globals =
     Return ((None, Some ErrUnsupportedEncoding), bzip2_request, initial_globals) \<and>
   gzipReader marked_codecs ''data'' = Inl (OtherErr ''invalid header'') \<and>
   CompressionMiddleware marked_codecs (\<lambda>r w. Panic)
       (bzip2_request\<lparr>MicroRequest.Headers := Some [''encoding'' \<mapsto> [''gzip'']]\<rparr>) initial_globals =
     Return ((None, Some (OtherErr ''invalid header'')),
             bzip2_request\<lparr>MicroRequest.Headers := Some [''encoding'' \<mapsto> [''gzip'']]\<rparr>, initial_globals) \<and>
   flateReader marked_codecs [] = Inl (OtherErr ''unexpected EOF'') \<and>
   CompressionMiddleware marked_codecs (\<lambda>r w. Panic)
       (bzip2_request\<lparr>MicroRequest.Headers := Some [''encoding'' \<mapsto> [''deflate'']],
                      MicroRequest.Data := []\<rparr>) initial_globals =
     Return ((None, Some (OtherErr ''unexpected EOF'')),
             bzip2_request\<lparr>MicroRequest.Headers := Some [''encoding'' \<mapsto> [''deflate'']],
                            MicroRequest.Data := []\<rparr>, initial_globals) \<and>
   MicroRequest_HeaderGet small_gzip_request HeaderEncoding = [] \<and>
   decompressRequest marked_codecs small_gzip_request = (None, small_gzip_request)"
  using inbound_short_circuit [where req = bzip2_request and lib = marked_codecs
      and nxt = "\<lambda>r w. Panic" and w = initial_globals]
    inbound_short_circuit [where
      req = "bzip2_request\<lparr>MicroRequest.Headers := Some [''encoding'' \<mapsto> [''gzip'']]\<rparr>"
      and lib = marked_codecs and nxt = "\<lambda>r w. Panic" and w = initial_globals
      and err = "OtherErr ''invalid header''"]
    inbound_short_circuit [where
      req = "bzip2_request\<lparr>MicroRequest.Headers := Some [''encoding'' \<mapsto> [''deflate'']],
                     MicroRequest.Data := []\<rparr>"
      and lib = marked_codecs and nxt = "\<lambda>r w. Panic" and w = initial_globals
      and err = "OtherErr ''unexpected EOF''"]
    inbound_short_circuit [where req = small_gzip_request and lib = marked_codecs]
  by (simp add: run_defs)

text \<open>
  Claim C6, as amended. The codecs of the library are lossless: a writer succeeds and
  its reader gives the written bytes back. Then, in each direction by a header of its
  own: a request that declares \<open>encoding: gzip\<close> (or \<open>deflate\<close>) and carries the gzip
  (or deflate) compression of some bytes reaches the next link with exactly these bytes
  as its payload and with the headers it came in with; and a reply at or above the
  threshold comes back compressed by the gzip (or deflate) writer, with the
  \<open>encoding\<close> header set to that name, and the matching reader gives the reply bytes
  of the next link back, when the \<open>accept-encoding\<close> header that the request
  carries once the next link has returned is \<open>gzip\<close> (or \<open>deflate\<close>), whatever the
  request's own encoding was. That header is the one of the original request whenever
  the next link leaves the headers of the request as they are.
\<close>

theorem codec_per_direction:
  assumes gz: "\<And>d. \<exists>z. gzipWriter lib d = Inr z \<and> gzipReader lib z = Inr d"
    and fl: "\<And>d. \<exists>z. flateWriter lib d = Inr z \<and> flateReader lib z = Inr d"
  shows "(MicroRequest_HeaderGet req HeaderEncoding = ''gzip'' \<and>
          gzipWriter lib orig = Inr (MicroRequest.Data req) \<longrightarrow>
            decompressRequest lib req = (None, req\<lparr>MicroRequest.Data := orig\<rparr>) \<and>
            CompressionMiddleware lib nxt req w =
              CompressionMiddleware lib (\<lambda>r. nxt (req\<lparr>MicroRequest.Data := orig\<rparr>)) req w) \<and>
         (MicroRequest_HeaderGet req HeaderEncoding = ''deflate'' \<and>
          flateWriter lib orig = Inr (MicroRequest.Data req) \<longrightarrow>
            decompressRequest lib req = (None, req\<lparr>MicroRequest.Data := orig\<rparr>) \<and>
            CompressionMiddleware lib nxt req w =
              CompressionMiddleware lib (\<lambda>r. nxt (req\<lparr>MicroRequest.Data := orig\<rparr>)) req w) \<and>
         (decompressRequest lib req = (None, dreq) \<longrightarrow>
            MicroRequest.Headers dreq = MicroRequest.Headers req) \<and>
         (decompressRequest lib req = (None, dreq) \<and>
          MicroRequest.Headers req' = MicroRequest.Headers dreq \<longrightarrow>
            MicroRequest_HeaderGet req' HeaderAcceptEncoding =
              MicroRequest_HeaderGet req HeaderAcceptEncoding) \<and>
         (decompressRequest lib req = (None, dreq) \<and>
          nxt dreq w = Return ((Some reply, None), req', w') \<and>
          GetCompressMin w' \<le> int (length (MicroReply.Data reply)) \<and>
          MicroRequest_HeaderGet req' HeaderAcceptEncoding = ''gzip'' \<longrightarrow>
            (\<exists>reply'. CompressionMiddleware lib nxt req w = Return ((Some reply', None), req', w') \<and>
               gzipWriter lib (MicroReply.Data reply) = Inr (MicroReply.Data reply') \<and>
               MicroReply_HeaderGet reply' HeaderEncoding = ''gzip'' \<and>
               gzipReader lib (MicroReply.Data reply') = Inr (MicroReply.Data reply))) \<and>
         (decompressRequest lib req = (None, dreq) \<and>
          nxt dreq w = Return ((Some reply, None), req', w') \<and>
          GetCompressMin w' \<le> int (length (MicroReply.Data reply)) \<and>
          MicroRequest_HeaderGet req' HeaderAcceptEncoding = ''deflate'' \<longrightarrow>
            (\<exists>reply'. CompressionMiddleware lib nxt req w = Return ((Some reply', None), req', w') \<and>
               flateWriter lib (MicroReply.Data reply) = Inr (MicroReply.Data reply') \<and>
               MicroReply_HeaderGet reply' HeaderEncoding = ''deflate'' \<and>
               flateReader lib (MicroReply.Data reply') = Inr (MicroReply.Data reply)))"
proof -
  have in_gz: "gzipReader lib z = Inr orig" if "gzipWriter lib orig = Inr z" for z
    using gz [of orig] that by auto
  have in_fl: "flateReader lib z = Inr orig" if "flateWriter lib orig = Inr z" for z
    using fl [of orig] that by auto
  obtain zg where zg: "gzipWriter lib (MicroReply.Data reply) = Inr zg"
                      "gzipReader lib zg = Inr (MicroReply.Data reply)"
    using gz [of "MicroReply.Data reply"] by auto
  obtain zf where zf: "flateWriter lib (MicroReply.Data reply) = Inr zf"
                      "flateReader lib zf = Inr (MicroReply.Data reply)"
    using fl [of "MicroReply.Data reply"] by auto
  have inbound_gz: "MicroRequest_HeaderGet req HeaderEncoding = ''gzip'' \<and>
          gzipWriter lib orig = Inr (MicroRequest.Data req) \<longrightarrow>
            decompressRequest lib req = (None, req\<lparr>MicroRequest.Data := orig\<rparr>) \<and>
            CompressionMiddleware lib nxt req w =
              CompressionMiddleware lib (\<lambda>r. nxt (req\<lparr>MicroRequest.Data := orig\<rparr>)) req w"
    using in_gz
    by (simp add: CompressionMiddleware_def decompressRequest_def readCompressedData_def
        decompressGzip_def)
  have inbound_fl: "MicroRequest_HeaderGet req HeaderEncoding = ''deflate'' \<and>
          flateWriter lib orig = Inr (MicroRequest.Data req) \<longrightarrow>
            decompressRequest lib req = (None, req\<lparr>MicroRequest.Data := orig\<rparr>) \<and>
            CompressionMiddleware lib nxt req w =
              CompressionMiddleware lib (\<lambda>r. nxt (req\<lparr>MicroRequest.Data := orig\<rparr>)) req w"
    using in_fl
    by (simp add: CompressionMiddleware_def decompressRequest_def readCompressedData_def
        decompressDeflate_def)
  have out_gz: "decompressRequest lib req = (None, dreq) \<and>
          nxt dreq w = Return ((Some reply, None), req', w') \<and>
          GetCompressMin w' \<le> int (length (MicroReply.Data reply)) \<and>
          MicroRequest_HeaderGet req' HeaderAcceptEncoding = ''gzip'' \<longrightarrow>
            (\<exists>reply'. CompressionMiddleware lib nxt req w = Return ((Some reply', None), req', w') \<and>
               gzipWriter lib (MicroReply.Data reply) = Inr (MicroReply.Data reply') \<and>
               MicroReply_HeaderGet reply' HeaderEncoding = ''gzip'' \<and>
               gzipReader lib (MicroReply.Data reply') = Inr (MicroReply.Data reply))"
    using zg
    by (simp add: CompressionMiddleware_def compressReply_def compressGzip_def HeaderSet_Return
        MicroReply_HeaderGet_def Header_Get_def)
  have out_fl: "decompressRequest lib req = (None, dreq) \<and>
          nxt dreq w = Return ((Some reply, None), req', w') \<and>
          GetCompressMin w' \<le> int (length (MicroReply.Data reply)) \<and>
          MicroRequest_HeaderGet req' HeaderAcceptEncoding = ''deflate'' \<longrightarrow>
            (\<exists>reply'. CompressionMiddleware lib nxt req w = Return ((Some reply', None), req', w') \<and>
               flateWriter lib (MicroReply.Data reply) = Inr (MicroReply.Data reply') \<and>
               MicroReply_HeaderGet reply' HeaderEncoding = ''deflate'' \<and>
               flateReader lib (MicroReply.Data reply') = Inr (MicroReply.Data reply))"
    using zf
    by (simp add: CompressionMiddleware_def compressReply_def compressDeflate_def HeaderSet_Return
        MicroReply_HeaderGet_def Header_Get_def)
  have hdrs: "decompressRequest lib req = (None, dreq) \<longrightarrow>
            MicroRequest.Headers dreq = MicroRequest.Headers req"
    by (auto simp: decompressRequest_def split: sum.splits)
  have same: "decompressRequest lib req = (None, dreq) \<and>
          MicroRequest.Headers req' = MicroRequest.Headers dreq \<longrightarrow>
            MicroRequest_HeaderGet req' HeaderAcceptEncoding =
              MicroRequest_HeaderGet req HeaderAcceptEncoding"
    using hdrs by (simp add: MicroRequest_HeaderGet_def)
  from inbound_gz inbound_fl hdrs same out_gz out_fl show ?thesis by blast
qed

text \<open>
  The run of the specification: 2000 bytes sent under \<open>encoding: gzip\<close> and
  \<open>accept-encoding: deflate\<close> to the echo handler. The handler gets the 2000 bytes;
  the reply is written by the deflate stand-in, carries \<open>encoding: deflate\<close> and reads
  back as the 2000 bytes.
\<close>

theorem codec_per_direction_witness:
  "MicroRequest_HeaderGet gzip_in_deflate_out_request HeaderEncoding = ''gzip'' \<and>
   MicroRequest_HeaderGet gzip_in_deflate_out_request HeaderAcceptEncoding = ''deflate'' \<and>
   gzipWriter marked_codecs (replicate 2000 (CHR ''a'')) =
     Inr (MicroRequest.Data gzip_in_deflate_out_request) \<and>
   decompressRequest marked_codecs gzip_in_deflate_out_request =
     (None, gzip_in_deflate_out_request\<lparr>MicroRequest.Data := replicate 2000 (CHR ''a'')\<rparr>) \<and>
   CompressionMiddleware marked_codecs microEcho gzip_in_deflate_out_request initial_globals =
     Return ((Some \<lparr>MicroReply.Headers = Some [''encoding'' \<mapsto> [''deflate'']],
                     MicroReply.Data = CHR ''F'' # replicate 2000 (CHR ''a'')\<rparr>, None),
             gzip_in_deflate_out_request\<lparr>MicroRequest.Data := replicate 2000 (CHR ''a'')\<rparr>,
             initial_globals) \<and>
   flateReader marked_codecs (CHR ''F'' # replicate 2000 (CHR ''a'')) =
     Inr (replicate 2000 (CHR ''a''))"
  using codec_per_direction [OF marked_gzip_lossless marked_flate_lossless,
      where req = gzip_in_deflate_out_request and orig = "replicate 2000 (CHR ''a'')"
      and dreq = "gzip_in_deflate_out_request\<lparr>MicroRequest.Data := replicate 2000 (CHR ''a'')\<rparr>"
      and nxt = microEcho and w = initial_globals
      and reply = "NewMicroReply (replicate 2000 (CHR ''a''))"
      and req' = "gzip_in_deflate_out_request\<lparr>MicroRequest.Data := replicate 2000 (CHR ''a'')\<rparr>"
      and w' = initial_globals]
  by (simp add: run_defs)

text \<open>
  Against the claim as it was stated, with the codec chosen by the header of the
  original request: a request of 2000 bytes comes in with \<open>accept-encoding: gzip\<close>,
  the next link sets the header of the request to \<open>deflate\<close> and echoes, and the reply
  is written by the deflate stand-in and carries \<open>encoding: deflate\<close>.
\<close>

theorem codec_per_direction_counterexample:
  "MicroRequest_HeaderGet accept_gzip_request HeaderAcceptEncoding = ''gzip'' \<and>
   GetCompressMin initial_globals \<le> int (length (MicroRequest.Data accept_gzip_request)) \<and>
   CompressionMiddleware marked_codecs (set_accept_echo ''deflate'') accept_gzip_request initial_globals =
     Return ((Some \<lparr>MicroReply.Headers = Some [''encoding'' \<mapsto> [''deflate'']],
                     MicroReply.Data = CHR ''F'' # replicate 2000 (CHR ''a'')\<rparr>, None),
             accept_gzip_request\<lparr>MicroRequest.Headers := Some [''accept-encoding'' \<mapsto> [''deflate'']]\<rparr>,
             initial_globals)"
  by (simp add: run_defs set_accept_echo_def accept_gzip_request_def MicroRequest_HeaderSet_def)

text \<open>
  Claim C9, as amended. When the \<open>accept-encoding\<close> header that the request carries
  once the next link has returned is neither empty nor \<open>gzip\<close> nor \<open>deflate\<close>, the
  middleware returns the reply of the next link as it got it, whatever its size, and
  no error; the same value in the \<open>encoding\<close> header of a request makes the
  middleware return \<open>ErrUnsupportedEncoding\<close>. The next link is handed the request
  with the headers it came in with, and the header read afterwards is the one of the
  originating request whenever the next link leaves the headers as they are.
\<close>

theorem unknown_accept_encoding_ignored:
  assumes "decompressRequest lib req = (None, dreq)"
    and "nxt dreq w = Return ((Some reply, None), req', w')"
    and "MicroRequest_HeaderGet req' HeaderAcceptEncoding = v"
    and "v \<noteq> []" and "v \<noteq> ''gzip''" and "v \<noteq> ''deflate''"
  shows "MicroRequest.Headers dreq = MicroRequest.Headers req \<and>
         (MicroRequest.Headers req' = MicroRequest.Headers dreq \<longrightarrow>
            MicroRequest_HeaderGet req HeaderAcceptEncoding = v) \<and>
         CompressionMiddleware lib nxt req w = Return ((Some reply, None), req', w') \<and>
         (\<forall>r n. MicroRequest_HeaderGet r HeaderEncoding = v \<longrightarrow>
            CompressionMiddleware lib n r w = Return ((None, Some ErrUnsupportedEncoding), r, w))"
proof -
  have hdrs: "MicroRequest.Headers dreq = MicroRequest.Headers req"
    using assms(1) by (auto simp: decompressRequest_def split: sum.splits)
  have "MicroRequest.Headers req' = MicroRequest.Headers dreq \<longrightarrow>
            MicroRequest_HeaderGet req HeaderAcceptEncoding = v"
    using hdrs assms(3) by (auto simp: MicroRequest_HeaderGet_def)
  moreover note hdrs
  moreover have "CompressionMiddleware lib nxt req w = Return ((Some reply, None), req', w')"
    using assms by (simp add: CompressionMiddleware_def compressReply_def)
  moreover have "\<forall>r n. MicroRequest_HeaderGet r HeaderEncoding = v \<longrightarrow>
            CompressionMiddleware lib n r w = Return ((None, Some ErrUnsupportedEncoding), r, w)"
    using assms(4-6)
    by (simp add: CompressionMiddleware_def decompressRequest_def readCompressedData_def)
  ultimately show ?thesis by blast
qed

text \<open>
  An echoed payload of 2000 bytes under \<open>accept-encoding: bzip2\<close> comes back as it is;
  a request under \<open>encoding: bzip2\<close> is refused.
\<close>

theorem unknown_accept_encoding_ignored_witness:
  "decompressRequest marked_codecs accept_bzip2_request = (None, accept_bzip2_request) \<and>
   MicroRequest_HeaderGet accept_bzip2_request HeaderAcceptEncoding = ''bzip2'' \<and>
   GetCompressMin initial_globals \<le> int (length (MicroRequest.Data accept_bzip2_request)) \<and>
   CompressionMiddleware marked_codecs microEcho accept_bzip2_request initial_globals =
     Return ((Some \<lparr>MicroReply.Headers = Some Map.empty,
                     MicroReply.Data = replicate 2000 (CHR ''a'')\<rparr>, None),
             accept_bzip2_request, initial_globals) \<and>
   MicroRequest_HeaderGet bzip2_request HeaderEncoding = ''bzip2'' \<and>
   CompressionMiddleware marked_codecs microEcho bzip2_request initial_globals =
     Return ((None, Some ErrUnsupportedEncoding), bzip2_request, initial_globals)"
  using unknown_accept_encoding_ignored [where lib = marked_codecs and req = accept_bzip2_request
      and dreq = accept_bzip2_request and nxt = microEcho and w = initial_globals
      and reply = "NewMicroReply (replicate 2000 (CHR ''a''))" and req' = accept_bzip2_request
      and w' = initial_globals and v = "''bzip2''"]
  by (simp add: run_defs)

text \<open>
  Against the claim as it was stated, with the header of the originating request: a
  request of 2000 bytes comes in with \<open>accept-encoding: bzip2\<close>, the next link sets
  the header of the request to \<open>gzip\<close> and echoes, and the reply does not come back
  untouched: it is written by the gzip stand-in and carries \<open>encoding: gzip\<close>.
\<close>

theorem unknown_accept_encoding_ignored_counterexample:
  "MicroRequest_HeaderGet accept_bzip2_request HeaderAcceptEncoding = ''bzip2'' \<and>
   GetCompressMin initial_globals \<le> int (length (MicroRequest.Data accept_bzip2_request)) \<and>
   CompressionMiddleware marked_codecs (set_accept_echo ''gzip'') accept_bzip2_request initial_globals =
     Return ((Some \<lparr>MicroReply.Headers = Some [''encoding'' \<mapsto> [''gzip'']],
                     MicroReply.Data = CHR ''G'' # replicate 2000 (CHR ''a'')\<rparr>, None),
             accept_bzip2_request\<lparr>MicroRequest.Headers := Some [''accept-encoding'' \<mapsto> [''gzip'']]\<rparr>,
             initial_globals)"
  by (simp add: run_defs set_accept_echo_def MicroRequest_HeaderSet_def)

section \<open>Middleware sequences of derived services and groups\<close>

text \<open>
  Claim C8. A service is created with the middleware \<open>A\<close>; \<open>Use\<close> derives from it a
  service with \<open>B\<close> added and from that one, \<open>s\<close>, with \<open>C\<close> added: the array behind
  the sequence of \<open>s\<close> has room for a fourth element. Two children are derived from
  \<open>s\<close>, the first with \<open>X\<close>, the second with \<open>Y\<close>. Before the second is derived the
  sequence of the first is \<open>A, B, C, X\<close>; afterwards it is \<open>A, B, C, Y\<close>, the
  sequence of the second, since both were written into the array of \<open>s\<close>. The same
  happens to the context middleware of two groups derived from one group.
\<close>

theorem sibling_sequence_overwritten:
  "(case variadic [] [Some ''A''] of (fns, h0) \<Rightarrow>
    case (AddService (Inr ()) fns :: error + (unit, unit) Service) of
      Inl err \<Rightarrow> False
    | Inr s0 \<Rightarrow>
    case Service_Use h0 s0 [Some ''B''] of (s1, h1) \<Rightarrow>
    case Service_Use h1 s1 [Some ''C''] of (s, h2) \<Rightarrow>
    case Service_Use h2 s [Some ''X''] of (child1, h3) \<Rightarrow>
    case Service_Use h3 s [Some ''Y''] of (child2, h4) \<Rightarrow>
      elems h2 (mw s) = [Some ''A'', Some ''B'', Some ''C''] \<and>
      elems h3 (mw child1) = [Some ''A'', Some ''B'', Some ''C'', Some ''X''] \<and>
      elems h4 (mw child2) = [Some ''A'', Some ''B'', Some ''C'', Some ''Y''] \<and>
      elems h4 (mw child1) = [Some ''A'', Some ''B'', Some ''C'', Some ''Y''] \<and>
      elems h4 (mw s) = [Some ''A'', Some ''B'', Some ''C'']) \<and>
   (case variadic [] [Some ''A''] of (fns, h0) \<Rightarrow>
    case (AddContextService (Inr ()) fns :: error + (unit, unit) Service) of
      Inl err \<Rightarrow> False
    | Inr s0 \<Rightarrow>
    case Service_UseContext h0 s0 [Some ''B''] of (s1, h1) \<Rightarrow>
    case Service_UseContext h1 s1 [Some ''C''] of (s, h2) \<Rightarrow>
    case Group_UseContext h2 (Service_AddGroup s ()) [Some ''X''] of (group1, h3) \<Rightarrow>
    case Group_UseContext h3 (Service_AddGroup s ()) [Some ''Y''] of (group2, h4) \<Rightarrow>
      elems h3 (cmw (Group.svc group1)) = [Some ''A'', Some ''B'', Some ''C'', Some ''X''] \<and>
      elems h4 (cmw (Group.svc group2)) = [Some ''A'', Some ''B'', Some ''C'', Some ''Y''] \<and>
      elems h4 (cmw (Group.svc group1)) = [Some ''A'', Some ''B'', Some ''C'', Some ''Y''])"
  by (simp add: variadic_def AddService_def AddContextService_def Service_Use_def
      Service_WithMiddleware_def Service_UseContext_def Service_WithContextMiddleware_def
      Group_UseContext_def Group_WithContextMiddleware_def Service_AddGroup_def
      appendSlice_def growslice_def overwrite_def elems_def nilSlice_def)

end
